theory Spec2Isabelle
  imports Complex_Main
begin

section \<open>Python values\<close>

text \<open>
  The data handled by \<^verbatim>\<open>slim_mock_data.py\<close> and \<^verbatim>\<open>demo_analysis_service.py\<close> is what
  \<^verbatim>\<open>json.load\<close> produces: \<^verbatim>\<open>None\<close>, booleans, integers, floats, strings, lists and
  dictionaries with string keys. A dictionary is an association list in insertion
  order; a lookup takes the first binding of a key (a Python dictionary has one
  binding per key). The code below looks at a float only through its truth value and
  its type, so a float is carried as a real number.
\<close>

datatype pyval =
    PNone
  | PBool bool
  | PInt int
  | PFloat real
  | PStr string
  | PList "pyval list"
  | PDict "(string \<times> pyval) list"

datatype db_op = Query | Add | Commit | Refresh | Rollback

datatype py_error =
    AttributeError
  | KeyError
  | TypeError
  | FileNotFoundError
  | JSONDecodeError
  | DBError db_op

text \<open>Python's truth value of an object (\<^verbatim>\<open>not x\<close> is its negation).\<close>

fun truthy :: "pyval \<Rightarrow> bool" where
  "truthy PNone = False"
| "truthy (PBool b) = b"
| "truthy (PInt i) = (i \<noteq> 0)"
| "truthy (PFloat r) = (r \<noteq> 0)"
| "truthy (PStr s) = (s \<noteq> [])"
| "truthy (PList xs) = (xs \<noteq> [])"
| "truthy (PDict d) = (d \<noteq> [])"

fun isinstance_dict :: "pyval \<Rightarrow> bool" where
  "isinstance_dict (PDict d) = True"
| "isinstance_dict v = False"

fun isinstance_str :: "pyval \<Rightarrow> bool" where
  "isinstance_str (PStr s) = True"
| "isinstance_str v = False"

text \<open>The bindings of a dictionary; used only after an \<^verbatim>\<open>isinstance(x, dict)\<close> test.\<close>

fun items :: "pyval \<Rightarrow> (string \<times> pyval) list" where
  "items (PDict d) = d"
| "items v = []"

text \<open>\<^verbatim>\<open>d.get(k)\<close> and \<^verbatim>\<open>d.get(k, default)\<close> on a dictionary.\<close>

definition dict_get_default :: "(string \<times> pyval) list \<Rightarrow> string \<Rightarrow> pyval \<Rightarrow> pyval" where
  "dict_get_default d k dflt = (case map_of d k of None \<Rightarrow> dflt | Some v \<Rightarrow> v)"

definition dict_get :: "(string \<times> pyval) list \<Rightarrow> string \<Rightarrow> pyval" where
  "dict_get d k = dict_get_default d k PNone"

text \<open>
  \<^verbatim>\<open>x.get(k)\<close> on any object: only a dictionary has the method; on \<^verbatim>\<open>None\<close>, a number,
  a string or a list the attribute lookup raises \<^verbatim>\<open>AttributeError\<close>.
\<close>

definition py_get :: "pyval \<Rightarrow> string \<Rightarrow> py_error + pyval" where
  "py_get x k = (case x of PDict d \<Rightarrow> Inr (dict_get d k) | _ \<Rightarrow> Inl AttributeError)"

text \<open>\<^verbatim>\<open>d[k] = v\<close>: an existing key keeps its position, a new key goes last.\<close>

fun dict_set :: "(string \<times> pyval) list \<Rightarrow> string \<Rightarrow> pyval \<Rightarrow> (string \<times> pyval) list" where
  "dict_set [] k v = [(k, v)]"
| "dict_set ((k', v') # d) k v = (if k' = k then (k, v) # d else (k', v') # dict_set d k v)"

text \<open>Sequencing of computations that may raise: the first exception wins.\<close>

definition ebind :: "'e + 'a \<Rightarrow> ('a \<Rightarrow> 'e + 'b) \<Rightarrow> 'e + 'b" where
  "ebind m f = (case m of Inl e \<Rightarrow> Inl e | Inr x \<Rightarrow> f x)"

section \<open>The compaction transform (\<^verbatim>\<open>slim_mock_data.py\<close>)\<close>

text \<open>
  \<^verbatim>\<open>slim_user_object\<close>, lines 12 to 31. A falsy or non-dictionary argument gives
  \<^verbatim>\<open>None\<close>. With a \<^verbatim>\<open>'data'\<close> key the envelope is unwrapped: \<^verbatim>\<open>user_data.get\<close> is safe
  after the \<^verbatim>\<open>isinstance\<close> test, \<^verbatim>\<open>user_attrs.get\<close> raises when \<^verbatim>\<open>'attributes'\<close> is bound
  to something that is not a dictionary. The dictionary literal evaluates its values
  in order: id, email, name, and \<^verbatim>\<open>full_name\<close> only when the name is falsy.
  Without a \<^verbatim>\<open>'data'\<close> key the argument is returned as it is.
\<close>

definition slim_user_object :: "pyval \<Rightarrow> py_error + pyval" where
  "slim_user_object user_obj =
     (if \<not> truthy user_obj \<or> \<not> isinstance_dict user_obj then Inr PNone
      else
        (case map_of (items user_obj) ''data'' of
          Some user_data \<Rightarrow>
            if \<not> truthy user_data \<or> \<not> isinstance_dict user_data then Inr PNone
            else
              (let user_attrs = dict_get_default (items user_data) ''attributes'' (PDict []);
                   uid = dict_get (items user_data) ''id''
               in ebind (py_get user_attrs ''email'') (\<lambda>email.
                  ebind (py_get user_attrs ''name'') (\<lambda>name.
                  ebind (if truthy name then Inr name else py_get user_attrs ''full_name'')
                    (\<lambda>name_or_full.
                  Inr (PDict [(''id'', uid), (''email'', email), (''name'', name_or_full)])))))
        | None \<Rightarrow> Inr user_obj))"

text \<open>
  \<^verbatim>\<open>extract_severity_name\<close>, lines 34 to 53. The \<^verbatim>\<open>data\<close> path is taken when \<^verbatim>\<open>'data'\<close>
  is bound to a dictionary that has an \<^verbatim>\<open>'attributes'\<close> key; otherwise the top-level
  \<^verbatim>\<open>'attributes'\<close> key is tried. In both paths \<^verbatim>\<open>.get('name')\<close> is called on whatever
  \<^verbatim>\<open>'attributes'\<close> is bound to.
\<close>

definition extract_severity_name :: "pyval \<Rightarrow> py_error + pyval" where
  "extract_severity_name severity_obj =
     (if \<not> truthy severity_obj then Inr PNone
      else if isinstance_str severity_obj then Inr severity_obj
      else if isinstance_dict severity_obj then
        (case (case map_of (items severity_obj) ''data'' of
                 Some sev_data \<Rightarrow>
                   if isinstance_dict sev_data then map_of (items sev_data) ''attributes''
                   else None
               | None \<Rightarrow> None) of
           Some sev_attrs \<Rightarrow> py_get sev_attrs ''name''
         | None \<Rightarrow>
             (case map_of (items severity_obj) ''attributes'' of
                Some top_attrs \<Rightarrow> py_get top_attrs ''name''
              | None \<Rightarrow> Inr PNone))
      else Inr PNone)"

text \<open>
  \<^verbatim>\<open>slim_incident\<close>, lines 56 to 102. \<^verbatim>\<open>attrs\<close> is whatever \<^verbatim>\<open>'attributes'\<close> is bound
  to (an empty dictionary when the key is missing); the first \<^verbatim>\<open>attrs.get\<close> raises when
  it is not a dictionary. The severity and the four user references are resolved in
  the order of the literal. The comprehension of line 100 drops the bindings to
  \<^verbatim>\<open>None\<close> and keeps the order of the rest.
\<close>

definition not_none :: "string \<times> pyval \<Rightarrow> bool" where
  "not_none kv = (snd kv \<noteq> PNone)"

definition slim_incident :: "pyval \<Rightarrow> py_error + pyval" where
  "slim_incident incident =
     (if \<not> truthy incident \<or> \<not> isinstance_dict incident then Inr incident
      else
        (case dict_get_default (items incident) ''attributes'' (PDict []) of
          PDict attrs \<Rightarrow>
            ebind (extract_severity_name (dict_get attrs ''severity'')) (\<lambda>severity.
            ebind (slim_user_object (dict_get attrs ''user'')) (\<lambda>user.
            ebind (slim_user_object (dict_get attrs ''started_by'')) (\<lambda>started_by.
            ebind (slim_user_object (dict_get attrs ''resolved_by'')) (\<lambda>resolved_by.
            ebind (slim_user_object (dict_get attrs ''mitigated_by'')) (\<lambda>mitigated_by.
            Inr (PDict
              [(''id'', dict_get (items incident) ''id''),
               (''type'', dict_get (items incident) ''type''),
               (''attributes'', PDict (filter not_none
                 [(''sequential_id'', dict_get attrs ''sequential_id''),
                  (''title'', dict_get attrs ''title''),
                  (''summary'', dict_get attrs ''summary''),
                  (''status'', dict_get attrs ''status''),
                  (''severity'', severity),
                  (''created_at'', dict_get attrs ''created_at''),
                  (''started_at'', dict_get attrs ''started_at''),
                  (''acknowledged_at'', dict_get attrs ''acknowledged_at''),
                  (''mitigated_at'', dict_get attrs ''mitigated_at''),
                  (''resolved_at'', dict_get attrs ''resolved_at''),
                  (''user'', user),
                  (''started_by'', started_by),
                  (''resolved_by'', resolved_by),
                  (''mitigated_by'', mitigated_by),
                  (''slack_channel_id'', dict_get attrs ''slack_channel_id''),
                  (''slack_channel_name'', dict_get attrs ''slack_channel_name''),
                  (''slack_channel_url'', dict_get attrs ''slack_channel_url''),
                  (''slack_channel_deep_link'',
                     dict_get attrs ''slack_channel_deep_link'')]))]))))))
        | _ \<Rightarrow> Inl AttributeError))"

text \<open>The keys of the literal of lines 70 to 96, in its order.\<close>

definition slim_attribute_keys :: "string list" where
  "slim_attribute_keys =
     [''sequential_id'', ''title'', ''summary'', ''status'', ''severity'',
      ''created_at'', ''started_at'', ''acknowledged_at'', ''mitigated_at'', ''resolved_at'',
      ''user'', ''started_by'', ''resolved_by'', ''mitigated_by'',
      ''slack_channel_id'', ''slack_channel_name'', ''slack_channel_url'',
      ''slack_channel_deep_link'']"

text \<open>
  The list comprehension of line 111: the elements are transformed from left to right
  and the first exception ends the comprehension.
\<close>

fun comprehension :: "('a \<Rightarrow> 'e + 'b) \<Rightarrow> 'a list \<Rightarrow> 'e + 'b list" where
  "comprehension f [] = Inr []"
| "comprehension f (x # xs) =
     (case f x of
        Inl e \<Rightarrow> Inl e
      | Inr y \<Rightarrow> (case comprehension f xs of Inl e \<Rightarrow> Inl e | Inr ys \<Rightarrow> Inr (y # ys)))"

text \<open>
  \<^verbatim>\<open>slim_incidents\<close>, lines 105 to 122. An empty list is returned as it is. The sizes of
  lines 110 to 120 are printed and take no part in the value returned; the division of
  line 114 is guarded by \<^verbatim>\<open>original_size > 0\<close>, so the report raises nothing.
\<close>

definition slim_incidents :: "pyval list \<Rightarrow> py_error + pyval list" where
  "slim_incidents incidents =
     (if incidents = [] then Inr incidents else comprehension slim_incident incidents)"

section \<open>The demo analysis service (\<^verbatim>\<open>demo_analysis_service.py\<close>)\<close>

subsection \<open>The models and the persistence interface\<close>

text \<open>
  Modelled from the spec: the \<^verbatim>\<open>User\<close> model of \<^verbatim>\<open>app/models/user.py\<close>, which is not
  among the sources. The service reads \<^verbatim>\<open>id\<close>, \<^verbatim>\<open>email\<close> and, when the attribute exists,
  \<^verbatim>\<open>organization_id\<close> (absent and null are both \<open>None\<close> here).
\<close>

record user =
  u_id :: int
  u_email :: string
  u_organization_id :: "int option"

text \<open>
  Modelled from the spec: the \<^verbatim>\<open>Analysis\<close> model of \<^verbatim>\<open>app/models/analysis.py\<close>, which is
  not among the sources; its fields are the keyword arguments of the constructor call
  of lines 123 to 135 (the Demo Analysis Record of section 3 of the specification).
  The identifier and the uuid that the database generates are only logged (line 142)
  and are left out.
\<close>

record analysis =
  user_id :: int
  organization_id :: "int option"
  rootly_integration_id :: "int option"
  integration_name :: string
  platform :: pyval
  time_range :: pyval
  status :: string
  config :: pyval
  results :: pyval
  error_message :: "string option"
  completed_at :: string

text \<open>
  What the template file holds when it is looked at: nothing, text that \<^verbatim>\<open>json.load\<close>
  rejects, or a document.
\<close>

datatype storage = Absent | Malformed | Content pyval

text \<open>
  What a call finds outside the process: which session methods raise, the template
  file, and the two readings of the clock (lines 119 and 134).
\<close>

record env =
  fails :: "db_op \<Rightarrow> bool"
  storage :: storage
  now_iso :: string
  now :: string

text \<open>
  Modelled from the spec: the persistence interface of section 6 of the specification
  (SQLAlchemy's \<^verbatim>\<open>Session\<close>, not among the sources). \<open>rows\<close> are the committed records,
  \<open>pending\<close> the records added and not yet committed, \<open>calls\<close> the session methods
  called so far. The rest of the state is the module's: \<open>cache\<close> is
  \<^verbatim>\<open>_MOCK_DATA_CACHE\<close> (\<open>PNone\<close> when empty), \<open>probes\<close> counts the \<^verbatim>\<open>exists()\<close> tests of
  line 43 and \<open>reads\<close> the \<^verbatim>\<open>open\<close>/\<^verbatim>\<open>json.load\<close> of lines 47 and 48.
\<close>

record world =
  rows :: "analysis list"
  pending :: "analysis list"
  calls :: "db_op list"
  cache :: pyval
  probes :: nat
  reads :: nat

text \<open>
  Modelled from the spec: \<^verbatim>\<open>query(user_id)\<close>, \<^verbatim>\<open>insert\<close>, \<^verbatim>\<open>commit\<close>, \<^verbatim>\<open>refresh\<close> and
  \<^verbatim>\<open>rollback\<close>. Every method may raise, as the environment says. A query sees the
  committed records and those pending in the session; a commit makes the pending
  records durable, or raises and changes nothing; a rollback drops the pending records,
  or raises and changes nothing.
\<close>

definition db_query :: "env \<Rightarrow> world \<Rightarrow> int \<Rightarrow> (py_error + analysis list) \<times> world" where
  "db_query e w uid =
     (let w' = w\<lparr>calls := calls w @ [Query]\<rparr>
      in if fails e Query then (Inl (DBError Query), w')
         else (Inr (filter (\<lambda>a. user_id a = uid) (rows w @ pending w)), w'))"

definition db_add :: "env \<Rightarrow> world \<Rightarrow> analysis \<Rightarrow> (py_error + unit) \<times> world" where
  "db_add e w a =
     (let w' = w\<lparr>calls := calls w @ [Add]\<rparr>
      in if fails e Add then (Inl (DBError Add), w')
         else (Inr (), w'\<lparr>pending := pending w @ [a]\<rparr>))"

definition db_commit :: "env \<Rightarrow> world \<Rightarrow> (py_error + unit) \<times> world" where
  "db_commit e w =
     (let w' = w\<lparr>calls := calls w @ [Commit]\<rparr>
      in if fails e Commit then (Inl (DBError Commit), w')
         else (Inr (), w'\<lparr>rows := rows w @ pending w, pending := []\<rparr>))"

definition db_refresh :: "env \<Rightarrow> world \<Rightarrow> (py_error + unit) \<times> world" where
  "db_refresh e w =
     (let w' = w\<lparr>calls := calls w @ [Refresh]\<rparr>
      in if fails e Refresh then (Inl (DBError Refresh), w') else (Inr (), w'))"

definition db_rollback :: "env \<Rightarrow> world \<Rightarrow> (py_error + unit) \<times> world" where
  "db_rollback e w =
     (let w' = w\<lparr>calls := calls w @ [Rollback]\<rparr>
      in if fails e Rollback then (Inl (DBError Rollback), w')
         else (Inr (), w'\<lparr>pending := []\<rparr>))"

subsection \<open>The template cache\<close>

text \<open>
  \<^verbatim>\<open>_load_mock_data\<close>, lines 23 to 58 (an Isabelle name cannot start with an
  underscore). A cache that is not \<^verbatim>\<open>None\<close> is returned without touching the file.
  Otherwise the file is probed; a missing file raises before it is opened, a file that
  does not parse raises after it was read, and in both cases the handler of line 56
  raises again with the cache as it was. A document that parses is stored in the cache
  and returned.
\<close>

definition load_mock_data :: "storage \<Rightarrow> world \<Rightarrow> (py_error + pyval) \<times> world" where
  "load_mock_data st w =
     (if cache w \<noteq> PNone then (Inr (cache w), w)
      else
        (let w1 = w\<lparr>probes := probes w + 1\<rparr>
         in case st of
              Absent \<Rightarrow> (Inl FileNotFoundError, w1)
            | Malformed \<Rightarrow> (Inl JSONDecodeError, w1\<lparr>reads := reads w + 1\<rparr>)
            | Content data \<Rightarrow> (Inr data, w1\<lparr>reads := reads w + 1, cache := data\<rparr>)))"

text \<open>\<^verbatim>\<open>clear_mock_data_cache\<close>, lines 161 to 169.\<close>

definition clear_mock_data_cache :: "world \<Rightarrow> world" where
  "clear_mock_data_cache w = w\<lparr>cache := PNone\<rparr>"

text \<open>
  A sequence of calls of the getter with nothing in between; the list gives what the
  file holds at each call.
\<close>

fun load_sequence :: "storage list \<Rightarrow> world \<Rightarrow> (py_error + pyval) list \<times> world" where
  "load_sequence [] w = ([], w)"
| "load_sequence (st # sts) w =
     (case load_mock_data st w of
        (r, w1) \<Rightarrow> (case load_sequence sts w1 of (rs, w2) \<Rightarrow> (r # rs, w2)))"

subsection \<open>The idempotency guard\<close>

text \<open>The test of lines 77 and 78 on one record's \<^verbatim>\<open>config\<close>.\<close>

definition is_demo_config :: "pyval \<Rightarrow> bool" where
  "is_demo_config c =
     (truthy c \<and> isinstance_dict c \<and> dict_get (items c) ''is_demo'' = PBool True)"

text \<open>The loop of lines 76 to 81: the first demo record ends it.\<close>

fun has_demo_loop :: "analysis list \<Rightarrow> bool" where
  "has_demo_loop [] = False"
| "has_demo_loop (a # user_analyses) =
     (if is_demo_config (config a) then True else has_demo_loop user_analyses)"

text \<open>\<^verbatim>\<open>_has_demo_analysis\<close>, lines 61 to 81.\<close>

definition has_demo_analysis :: "env \<Rightarrow> world \<Rightarrow> int \<Rightarrow> (py_error + bool) \<times> world" where
  "has_demo_analysis e w uid =
     (case db_query e w uid of
        (Inl err, w') \<Rightarrow> (Inl err, w')
      | (Inr user_analyses, w') \<Rightarrow> (Inr (has_demo_loop user_analyses), w'))"

subsection \<open>The provisioner\<close>

text \<open>
  Lines 114 to 135: the record built from the template. \<^verbatim>\<open>mock_data['analysis']\<close>
  raises \<^verbatim>\<open>KeyError\<close> on a dictionary without the key and \<^verbatim>\<open>TypeError\<close> on anything that
  is not a dictionary; \<^verbatim>\<open>original_analysis.get\<close> raises \<^verbatim>\<open>AttributeError\<close> on anything
  that is not a dictionary; \<^verbatim>\<open>.copy()\<close> exists on a dictionary and on a list, and the
  assignment of line 118 raises \<^verbatim>\<open>TypeError\<close> on the copy of a list.
\<close>

definition build_demo_analysis :: "env \<Rightarrow> user \<Rightarrow> pyval \<Rightarrow> py_error + analysis" where
  "build_demo_analysis e u mock_data =
     (case mock_data of
        PDict m \<Rightarrow>
          (case map_of m ''analysis'' of
             None \<Rightarrow> Inl KeyError
           | Some original_analysis \<Rightarrow>
               (case original_analysis of
                  PDict oa \<Rightarrow>
                    (case dict_get_default oa ''config'' (PDict []) of
                       PDict c \<Rightarrow>
                         Inr \<lparr>user_id = u_id u,
                              organization_id = u_organization_id u,
                              rootly_integration_id = None,
                              integration_name = ''Demo Analysis'',
                              platform = dict_get_default oa ''platform'' (PStr ''pagerduty''),
                              time_range = dict_get_default oa ''time_range'' (PInt 30),
                              status = ''completed'',
                              config = PDict
                                (dict_set
                                  (dict_set
                                    (dict_set c ''is_demo'' (PBool True))
                                    ''demo_created_at'' (PStr (now_iso e)))
                                  ''demo_note''
                                  (PStr ''This is a sample analysis to help you explore the platform'')),
                              results = dict_get oa ''results'',
                              error_message = None,
                              completed_at = now e\<rparr>
                     | PList l \<Rightarrow> Inl TypeError
                     | _ \<Rightarrow> Inl AttributeError)
                | _ \<Rightarrow> Inl AttributeError))
      | _ \<Rightarrow> Inl TypeError)"

text \<open>
  Lines 107 to 146: the body of the \<^verbatim>\<open>try\<close> after the log call of line 105, for a user
  whose attributes were read. \<open>Inl\<close> is an exception leaving the body, \<open>Inr\<close> the value
  returned from inside it.
\<close>

definition provision_body :: "env \<Rightarrow> world \<Rightarrow> user \<Rightarrow> (py_error + bool) \<times> world" where
  "provision_body e w u =
     (case has_demo_analysis e w (u_id u) of
        (Inl err, w1) \<Rightarrow> (Inl err, w1)
      | (Inr True, w1) \<Rightarrow> (Inr False, w1)
      | (Inr False, w1) \<Rightarrow>
          (case load_mock_data (storage e) w1 of
             (Inl err, w2) \<Rightarrow> (Inl err, w2)
           | (Inr mock_data, w2) \<Rightarrow>
               (case build_demo_analysis e u mock_data of
                  Inl err \<Rightarrow> (Inl err, w2)
                | Inr a \<Rightarrow>
                    (case db_add e w2 a of
                       (Inl err, w3) \<Rightarrow> (Inl err, w3)
                     | (Inr _, w3) \<Rightarrow>
                         (case db_commit e w3 of
                            (Inl err, w4) \<Rightarrow> (Inl err, w4)
                          | (Inr _, w4) \<Rightarrow>
                              (case db_refresh e w4 of
                                 (Inl err, w5) \<Rightarrow> (Inl err, w5)
                               | (Inr _, w5) \<Rightarrow> (Inr True, w5)))))))"

text \<open>
  \<^verbatim>\<open>create_demo_analysis_for_new_user\<close>, lines 84 to 158. The argument \<^verbatim>\<open>user\<close> is a
  \<^verbatim>\<open>User\<close> row, or \<^verbatim>\<open>None\<close>, on which every attribute read raises \<^verbatim>\<open>AttributeError\<close>.
  Line 105 reads \<^verbatim>\<open>user.id\<close> and \<^verbatim>\<open>user.email\<close> inside the \<^verbatim>\<open>try\<close>. The handler of line 148
  first reads \<^verbatim>\<open>user.id\<close> again for its log message (line 149), before and outside the
  inner \<^verbatim>\<open>try\<close> of line 152: when that read raises, the exception leaves the function
  and \<^verbatim>\<open>db.rollback()\<close> is not called. Otherwise the handler calls \<^verbatim>\<open>db.rollback()\<close>,
  drops whatever that raises, and returns \<^verbatim>\<open>False\<close>. In the result \<open>Inl\<close> is an exception
  raised to the caller and \<open>Inr\<close> the boolean returned.
\<close>

definition create_demo_analysis_for_new_user ::
  "env \<Rightarrow> world \<Rightarrow> user option \<Rightarrow> (py_error + bool) \<times> world" where
  "create_demo_analysis_for_new_user e w user =
     (case (case user of
              None \<Rightarrow> (Inl AttributeError, w)
            | Some u \<Rightarrow> provision_body e w u) of
        (Inr b, w') \<Rightarrow> (Inr b, w')
      | (Inl err, w') \<Rightarrow>
          (case user of
             None \<Rightarrow> (Inl AttributeError, w')
           | Some u \<Rightarrow> (Inr False, snd (db_rollback e w'))))"

text \<open>The demo records of one user among some records.\<close>

definition demo_records :: "int \<Rightarrow> analysis list \<Rightarrow> analysis list" where
  "demo_records uid as = filter (\<lambda>a. user_id a = uid \<and> is_demo_config (config a)) as"

subsection \<open>Example inputs\<close>

text \<open>
  Concrete inputs on which the theorems below are instantiated: the template of the
  scenario of section 8 of the specification, an environment whose failing session
  methods are given, a process start with some committed records, a user, and a record
  of that user with a given \<^verbatim>\<open>config\<close>.
\<close>

definition template_example :: pyval where
  "template_example =
     PDict [(''analysis'',
       PDict [(''config'', PDict [(''foo'', PInt 1)]),
              (''platform'', PStr ''pagerduty''),
              (''time_range'', PInt 30),
              (''results'', PDict [(''team_health'', PInt 82)])])]"

definition env_example :: "(db_op \<Rightarrow> bool) \<Rightarrow> env" where
  "env_example f =
     \<lparr>fails = f, storage = Content template_example,
      now_iso = ''2025-01-01T00:00:00'', now = ''2025-01-01 00:00:00''\<rparr>"

definition world_example :: "analysis list \<Rightarrow> world" where
  "world_example rs =
     \<lparr>rows = rs, pending = [], calls = [], cache = PNone, probes = 0, reads = 0\<rparr>"

definition user_example :: user where
  "user_example = \<lparr>u_id = 7, u_email = ''a@b.com'', u_organization_id = None\<rparr>"

definition record_example :: "pyval \<Rightarrow> analysis" where
  "record_example c =
     \<lparr>user_id = 7, organization_id = None, rootly_integration_id = Some 3,
      integration_name = ''Production'', platform = PStr ''rootly'', time_range = PInt 30,
      status = ''completed'', config = c, results = PNone, error_message = None,
      completed_at = ''2024-12-01 00:00:00''\<rparr>"

section \<open>Properties of the compaction transform\<close>

lemmas py_defs = dict_get_def dict_get_default_def py_get_def ebind_def not_none_def

lemma ebind_Inr: "ebind m f = Inr y \<longleftrightarrow> (\<exists>x. m = Inr x \<and> f x = Inr y)"
  by (cases m) (simp_all add: ebind_def)

lemma comprehension_Inr:
  "comprehension f xs = Inr ys \<longleftrightarrow>
     (length ys = length xs \<and> (\<forall>i<length xs. f (xs ! i) = Inr (ys ! i)))"
proof (induction xs arbitrary: ys)
  case Nil
  then show ?case by auto
next
  case (Cons x xs)
  show ?case
  proof (cases ys)
    case Nil
    then show ?thesis by (auto split: sum.splits)
  next
    case (Cons y ys')
    then show ?thesis
      using Cons.IH [of ys']
      by (auto simp: nth_Cons less_Suc_eq_0_disj split: sum.splits nat.splits)
  qed
qed

text \<open>
  C3. \<^verbatim>\<open>slim_incidents\<close> returns a list exactly when \<^verbatim>\<open>slim_incident\<close> returns on every
  element, and the list returned has the length of the input and holds at every index
  the slimmed element of that index: nothing is filtered out and nothing is reordered.
\<close>

theorem slim_incidents_positional:
  "slim_incidents incidents = Inr slimmed \<longleftrightarrow>
     (length slimmed = length incidents \<and>
      (\<forall>i<length incidents. slim_incident (incidents ! i) = Inr (slimmed ! i)))"
  by (cases "incidents = []") (auto simp: slim_incidents_def comprehension_Inr)

theorem slim_incidents_positional_witness:
  "slim_incidents [PDict [(''id'', PStr ''7'')], PNone] =
     Inr [PDict [(''id'', PStr ''7''), (''type'', PNone), (''attributes'', PDict [])], PNone]"
proof -
  have "slim_incident (PDict [(''id'', PStr ''7'')]) =
          Inr (PDict [(''id'', PStr ''7''), (''type'', PNone), (''attributes'', PDict [])])"
    by (simp add: slim_incident_def extract_severity_name_def slim_user_object_def py_defs)
  moreover have "slim_incident PNone = Inr PNone"
    by (simp add: slim_incident_def)
  ultimately show ?thesis
    by (simp add: slim_incidents_positional less_Suc_eq)
qed

text \<open>The record built from a non-empty dictionary, whenever one is built.\<close>

lemma slim_incident_shape:
  assumes "slim_incident (PDict d) = Inr out" and "d \<noteq> []"
  shows "\<exists>full. map fst full = slim_attribute_keys \<and>
           out = PDict [(''id'', dict_get d ''id''), (''type'', dict_get d ''type''),
                        (''attributes'', PDict (filter not_none full))]"
proof -
  from assms obtain attrs where
    a: "dict_get_default d ''attributes'' (PDict []) = PDict attrs"
    by (auto simp: slim_incident_def simp del: filter.simps split: pyval.splits)
  from assms a obtain severity user started_by resolved_by mitigated_by where
    out: "out = PDict
              [(''id'', dict_get d ''id''),
               (''type'', dict_get d ''type''),
               (''attributes'', PDict (filter not_none
                 [(''sequential_id'', dict_get attrs ''sequential_id''),
                  (''title'', dict_get attrs ''title''),
                  (''summary'', dict_get attrs ''summary''),
                  (''status'', dict_get attrs ''status''),
                  (''severity'', severity),
                  (''created_at'', dict_get attrs ''created_at''),
                  (''started_at'', dict_get attrs ''started_at''),
                  (''acknowledged_at'', dict_get attrs ''acknowledged_at''),
                  (''mitigated_at'', dict_get attrs ''mitigated_at''),
                  (''resolved_at'', dict_get attrs ''resolved_at''),
                  (''user'', user),
                  (''started_by'', started_by),
                  (''resolved_by'', resolved_by),
                  (''mitigated_by'', mitigated_by),
                  (''slack_channel_id'', dict_get attrs ''slack_channel_id''),
                  (''slack_channel_name'', dict_get attrs ''slack_channel_name''),
                  (''slack_channel_url'', dict_get attrs ''slack_channel_url''),
                  (''slack_channel_deep_link'',
                     dict_get attrs ''slack_channel_deep_link'')]))]"
    unfolding slim_incident_def
    by (simp add: ebind_Inr del: filter.simps) blast
  show ?thesis
    unfolding out slim_attribute_keys_def
    apply (rule exI)
    apply (rule conjI)
     prefer 2
     apply (rule refl)
    apply (simp only: list.map fst_conv)
    done
qed

text \<open>
  C4. For a dictionary argument, whenever \<^verbatim>\<open>slim_incident\<close> returns: the empty
  dictionary is passed through; any other dictionary gives the record of \<^verbatim>\<open>id\<close>,
  \<^verbatim>\<open>type\<close> and \<^verbatim>\<open>attributes\<close>, whose attributes are the eighteen resolved bindings with
  those bound to \<^verbatim>\<open>None\<close> left out. So no key of the attributes of the output is bound
  to \<^verbatim>\<open>None\<close>, and which of the eighteen keys are present depends on the data.
\<close>

theorem slim_incident_omits_none:
  assumes "slim_incident (PDict d) = Inr out"
  shows "(d = [] \<longrightarrow> out = PDict []) \<and>
         (d \<noteq> [] \<longrightarrow>
            (\<exists>full. map fst full = slim_attribute_keys \<and>
               out = PDict [(''id'', dict_get d ''id''), (''type'', dict_get d ''type''),
                            (''attributes'', PDict (filter not_none full))])) \<and>
         (\<forall>as. map_of (items out) ''attributes'' = Some (PDict as) \<longrightarrow>
            PNone \<notin> snd ` set as \<and> set (map fst as) \<subseteq> set slim_attribute_keys)"
proof (cases "d = []")
  case True
  with assms have "out = PDict []" by (simp add: slim_incident_def)
  with True show ?thesis by simp
next
  case False
  from slim_incident_shape [OF assms False] obtain full where
    k: "map fst full = slim_attribute_keys" and
    out: "out = PDict [(''id'', dict_get d ''id''), (''type'', dict_get d ''type''),
                        (''attributes'', PDict (filter not_none full))]"
    by blast
  have "set (map fst (filter not_none full)) \<subseteq> set (map fst full)" by auto
  with k have sub: "set (map fst (filter not_none full)) \<subseteq> set slim_attribute_keys"
    by simp
  have nn: "PNone \<notin> snd ` set (filter not_none full)" by (auto simp: not_none_def)
  have att: "map_of (items out) ''attributes'' = Some (PDict (filter not_none full))"
    unfolding out by simp
  have "\<exists>full. map fst full = slim_attribute_keys \<and>
               out = PDict [(''id'', dict_get d ''id''), (''type'', dict_get d ''type''),
                            (''attributes'', PDict (filter not_none full))]"
    using k out by blast
  moreover have "\<forall>as. map_of (items out) ''attributes'' = Some (PDict as) \<longrightarrow>
            PNone \<notin> snd ` set as \<and> set (map fst as) \<subseteq> set slim_attribute_keys"
    using att nn sub by simp
  ultimately show ?thesis using False by blast
qed

text \<open>
  The scenario of the specification: a nested severity envelope naming SEV1 and the
  four user references bound to \<^verbatim>\<open>None\<close>.
\<close>

theorem slim_incident_omits_none_witness:
  "slim_incident (PDict [(''id'', PStr ''7''), (''type'', PStr ''incidents''),
      (''attributes'', PDict [(''title'', PStr ''db down''),
         (''severity'', PDict [(''data'', PDict [(''attributes'',
             PDict [(''name'', PStr ''SEV1'')])])]),
         (''user'', PNone), (''started_by'', PNone), (''resolved_by'', PNone),
         (''mitigated_by'', PNone), (''labels'', PList [])])]) =
    Inr (PDict [(''id'', PStr ''7''), (''type'', PStr ''incidents''),
      (''attributes'', PDict [(''title'', PStr ''db down''), (''severity'', PStr ''SEV1'')])])
   \<and> PNone \<notin> snd ` set [(''title'', PStr ''db down''), (''severity'', PStr ''SEV1'')]"
proof -
  have e: "slim_incident (PDict [(''id'', PStr ''7''), (''type'', PStr ''incidents''),
      (''attributes'', PDict [(''title'', PStr ''db down''),
         (''severity'', PDict [(''data'', PDict [(''attributes'',
             PDict [(''name'', PStr ''SEV1'')])])]),
         (''user'', PNone), (''started_by'', PNone), (''resolved_by'', PNone),
         (''mitigated_by'', PNone), (''labels'', PList [])])]) =
    Inr (PDict [(''id'', PStr ''7''), (''type'', PStr ''incidents''),
      (''attributes'', PDict [(''title'', PStr ''db down''), (''severity'', PStr ''SEV1'')])])"
    by (simp add: slim_incident_def extract_severity_name_def slim_user_object_def py_defs)
  from slim_incident_omits_none [OF e] show ?thesis using e by simp
qed

text \<open>
  C6, as stated, fails on the empty string: it is a plain string, and the test of
  line 36 sends every falsy value to \<^verbatim>\<open>None\<close> before the string test of line 40.
\<close>

theorem extract_severity_name_empty_string_counterexample:
  "extract_severity_name (PStr '''') \<noteq> Inr (PStr '''')"
  by (simp add: extract_severity_name_def)

text \<open>
  C6, amended. \<^verbatim>\<open>extract_severity_name\<close> returns \<^verbatim>\<open>None\<close> on every falsy value (the
  empty string among them) and a non-empty string as it is. On a non-empty dictionary
  it calls \<^verbatim>\<open>.get('name')\<close> on the \<^verbatim>\<open>'attributes'\<close> of \<^verbatim>\<open>'data'\<close> when \<^verbatim>\<open>'data'\<close> is bound
  to a dictionary with that key, otherwise on the top-level \<^verbatim>\<open>'attributes'\<close> when that
  key is present, and returns \<^verbatim>\<open>None\<close> when neither is there. On every other value it
  returns \<^verbatim>\<open>None\<close>. The \<^verbatim>\<open>.get('name')\<close> gives the name, or \<^verbatim>\<open>None\<close> without one, on a
  dictionary, and raises \<^verbatim>\<open>AttributeError\<close> on anything else.
\<close>

theorem extract_severity_name_cases:
  "(\<not> truthy v \<longrightarrow> extract_severity_name v = Inr PNone) \<and>
   (s \<noteq> [] \<longrightarrow> extract_severity_name (PStr s) = Inr (PStr s)) \<and>
   (d \<noteq> [] \<and> map_of d ''data'' = Some (PDict sd) \<and> map_of sd ''attributes'' = Some a \<longrightarrow>
      extract_severity_name (PDict d) = py_get a ''name'') \<and>
   (d \<noteq> [] \<and> \<not> (\<exists>sd a. map_of d ''data'' = Some (PDict sd) \<and> map_of sd ''attributes'' = Some a)
      \<and> map_of d ''attributes'' = Some b \<longrightarrow>
      extract_severity_name (PDict d) = py_get b ''name'') \<and>
   (d \<noteq> [] \<and> \<not> (\<exists>sd a. map_of d ''data'' = Some (PDict sd) \<and> map_of sd ''attributes'' = Some a)
      \<and> map_of d ''attributes'' = None \<longrightarrow>
      extract_severity_name (PDict d) = Inr PNone) \<and>
   (truthy v \<and> \<not> isinstance_str v \<and> \<not> isinstance_dict v \<longrightarrow>
      extract_severity_name v = Inr PNone) \<and>
   py_get (PDict n) ''name'' = Inr (case map_of n ''name'' of None \<Rightarrow> PNone | Some x \<Rightarrow> x) \<and>
   (\<not> isinstance_dict c \<longrightarrow> py_get c ''name'' = Inl AttributeError)"
proof -
  have 1: "\<not> truthy v \<longrightarrow> extract_severity_name v = Inr PNone"
    by (simp add: extract_severity_name_def)
  have 2: "s \<noteq> [] \<longrightarrow> extract_severity_name (PStr s) = Inr (PStr s)"
    by (simp add: extract_severity_name_def)
  have 3: "d \<noteq> [] \<and> map_of d ''data'' = Some (PDict sd) \<and> map_of sd ''attributes'' = Some a \<longrightarrow>
      extract_severity_name (PDict d) = py_get a ''name''"
    by (simp add: extract_severity_name_def)
  have 4: "d \<noteq> [] \<and> \<not> (\<exists>sd a. map_of d ''data'' = Some (PDict sd) \<and> map_of sd ''attributes'' = Some a)
      \<and> map_of d ''attributes'' = Some b \<longrightarrow>
      extract_severity_name (PDict d) = py_get b ''name''"
    by (cases "map_of d ''data''"; cases "the (map_of d ''data'')")
       (auto simp: extract_severity_name_def split: option.splits)
  have 5: "d \<noteq> [] \<and> \<not> (\<exists>sd a. map_of d ''data'' = Some (PDict sd) \<and> map_of sd ''attributes'' = Some a)
      \<and> map_of d ''attributes'' = None \<longrightarrow>
      extract_severity_name (PDict d) = Inr PNone"
    by (cases "map_of d ''data''"; cases "the (map_of d ''data'')")
       (auto simp: extract_severity_name_def split: option.splits)
  have 6: "truthy v \<and> \<not> isinstance_str v \<and> \<not> isinstance_dict v \<longrightarrow>
      extract_severity_name v = Inr PNone"
    by (simp add: extract_severity_name_def)
  have 7: "py_get (PDict n) ''name'' = Inr (case map_of n ''name'' of None \<Rightarrow> PNone | Some x \<Rightarrow> x)"
    by (simp add: py_get_def dict_get_def dict_get_default_def)
  have 8: "\<not> isinstance_dict c \<longrightarrow> py_get c ''name'' = Inl AttributeError"
    by (cases c) (simp_all add: py_get_def)
  from 1 2 3 4 5 6 7 8 show ?thesis by blast
qed

theorem extract_severity_name_cases_witness:
  "extract_severity_name (PStr ''SEV2'') = Inr (PStr ''SEV2'') \<and>
   extract_severity_name (PStr '''') = Inr PNone \<and>
   extract_severity_name (PDict [(''data'', PDict [(''attributes'', PDict [(''name'', PStr ''SEV1'')])]),
                                 (''attributes'', PDict [(''name'', PStr ''SEV3'')])]) = Inr (PStr ''SEV1'') \<and>
   extract_severity_name (PDict [(''data'', PNone),
                                 (''attributes'', PDict [(''name'', PStr ''SEV3'')])]) = Inr (PStr ''SEV3'') \<and>
   extract_severity_name (PDict [(''id'', PInt 3)]) = Inr PNone \<and>
   extract_severity_name (PInt 3) = Inr PNone \<and>
   extract_severity_name (PDict [(''attributes'', PNone)]) = Inl AttributeError"
  using extract_severity_name_cases [of "PStr ''''" "''SEV2''"
      "[(''data'', PDict [(''attributes'', PDict [(''name'', PStr ''SEV1'')])]),
        (''attributes'', PDict [(''name'', PStr ''SEV3'')])]"
      "[(''attributes'', PDict [(''name'', PStr ''SEV1'')])]"
      "PDict [(''name'', PStr ''SEV1'')]" "PNone" "[(''name'', PStr ''SEV1'')]" PNone]
    extract_severity_name_cases [of "PInt 3" "''x''"
      "[(''data'', PNone), (''attributes'', PDict [(''name'', PStr ''SEV3'')])]"
      "[]" PNone "PDict [(''name'', PStr ''SEV3'')]" "[(''name'', PStr ''SEV3'')]" PNone]
    extract_severity_name_cases [of "PInt 3" "''x''" "[(''id'', PInt 3)]" "[]" PNone PNone "[]" PNone]
    extract_severity_name_cases [of "PInt 3" "''x''" "[(''attributes'', PNone)]" "[]" PNone PNone "[]" PNone]
  by simp






section \<open>Properties of the template cache\<close>

lemma load_sequence_cached:
  "cache w \<noteq> PNone \<Longrightarrow> load_sequence sts w = (map (\<lambda>st. Inr (cache w)) sts, w)"
  by (induction sts) (simp_all add: load_mock_data_def)

text \<open>
  C8, as stated, fails when the load fails: with a file that does not parse the cache
  stays empty, so two calls with no clear in between read the file twice.
\<close>

theorem load_sequence_two_reads_counterexample:
  "\<not> reads (snd (load_sequence [Malformed, Malformed]
        \<lparr>rows = [], pending = [], calls = [], cache = PNone, probes = 0, reads = 0\<rparr>)) \<le> 0 + 1"
  by (simp add: load_mock_data_def)

text \<open>
  C8, amended. With a cache that is not empty, every call of a sequence returns the
  cached value and nothing is probed or read. From an empty cache, a first call that
  loads a document other than \<^verbatim>\<open>null\<close> reads once, and the whole sequence that starts
  with it reads exactly once and returns that document at every call. After
  \<^verbatim>\<open>clear_mock_data_cache\<close> the next call probes the file once and, when the file
  exists, reads it exactly once more; when it does not exist the call raises
  \<^verbatim>\<open>FileNotFoundError\<close> without opening it.
\<close>

theorem template_cache_reads:
  "(cache w \<noteq> PNone \<longrightarrow> load_sequence sts w = (map (\<lambda>st. Inr (cache w)) sts, w)) \<and>
   (cache w = PNone \<and> data \<noteq> PNone \<longrightarrow>
      load_sequence (Content data # sts) w =
        (Inr data # map (\<lambda>st. Inr data) sts,
         w\<lparr>probes := probes w + 1, reads := reads w + 1, cache := data\<rparr>)) \<and>
   probes (snd (load_mock_data st (clear_mock_data_cache w))) = probes w + 1 \<and>
   (st \<noteq> Absent \<longrightarrow> reads (snd (load_mock_data st (clear_mock_data_cache w))) = reads w + 1) \<and>
   (st = Absent \<longrightarrow> load_mock_data st (clear_mock_data_cache w) =
      (Inl FileNotFoundError, w\<lparr>cache := PNone, probes := probes w + 1\<rparr>))"
proof -
  have a: "cache w \<noteq> PNone \<longrightarrow> load_sequence sts w = (map (\<lambda>st. Inr (cache w)) sts, w)"
    by (simp add: load_sequence_cached)
  have b: "cache w = PNone \<and> data \<noteq> PNone \<longrightarrow>
      load_sequence (Content data # sts) w =
        (Inr data # map (\<lambda>st. Inr data) sts,
         w\<lparr>probes := probes w + 1, reads := reads w + 1, cache := data\<rparr>)"
    by (simp add: load_mock_data_def load_sequence_cached)
  have c: "probes (snd (load_mock_data st (clear_mock_data_cache w))) = probes w + 1"
    by (cases st) (simp_all add: load_mock_data_def clear_mock_data_cache_def)
  have d: "st \<noteq> Absent \<longrightarrow> reads (snd (load_mock_data st (clear_mock_data_cache w))) = reads w + 1"
    by (cases st) (simp_all add: load_mock_data_def clear_mock_data_cache_def)
  have e: "st = Absent \<longrightarrow> load_mock_data st (clear_mock_data_cache w) =
      (Inl FileNotFoundError, w\<lparr>cache := PNone, probes := probes w + 1\<rparr>)"
    by (simp add: load_mock_data_def clear_mock_data_cache_def)
  from a b c d e show ?thesis by blast
qed

theorem template_cache_reads_witness:
  "reads (snd (load_sequence [Content (PDict [(''analysis'', PDict [])]), Malformed, Absent]
        \<lparr>rows = [], pending = [], calls = [], cache = PNone, probes = 0, reads = 0\<rparr>)) = 1 \<and>
   reads (snd (load_mock_data Malformed (clear_mock_data_cache
        \<lparr>rows = [], pending = [], calls = [], cache = PInt 1, probes = 1, reads = 1\<rparr>))) = 2 \<and>
   fst (load_sequence [Absent, Absent]
        \<lparr>rows = [], pending = [], calls = [], cache = PInt 1, probes = 1, reads = 1\<rparr>) =
     [Inr (PInt 1), Inr (PInt 1)]"
  using template_cache_reads [of
      "\<lparr>rows = [], pending = [], calls = [], cache = PNone, probes = 0, reads = 0\<rparr>"
      "[Malformed, Absent]" "PDict [(''analysis'', PDict [])]" Malformed]
    template_cache_reads [of
      "\<lparr>rows = [], pending = [], calls = [], cache = PInt 1, probes = 1, reads = 1\<rparr>"
      "[Absent, Absent]" "PInt 1" Malformed]
  by simp

text \<open>
  C9. With an empty cache and a file that is absent or does not parse,
  \<^verbatim>\<open>_load_mock_data\<close> raises and the cache is still empty. Whenever it raises, the cache
  was empty, the file was absent or did not parse, the cache is unchanged, and the next
  call goes to the file again: it probes it, reads it when it exists, and returns its
  document when it now holds one.
\<close>

theorem load_failure_leaves_cache_empty:
  "(cache w = PNone \<and> (st = Absent \<or> st = Malformed) \<longrightarrow>
      (\<exists>err. fst (load_mock_data st w) = Inl err) \<and>
      cache (snd (load_mock_data st w)) = PNone) \<and>
   (fst (load_mock_data st w) = Inl err \<longrightarrow>
      cache w = PNone \<and> (st = Absent \<or> st = Malformed) \<and>
      cache (snd (load_mock_data st w)) = cache w \<and>
      probes (snd (load_mock_data st' (snd (load_mock_data st w)))) =
        probes (snd (load_mock_data st w)) + 1 \<and>
      (st' \<noteq> Absent \<longrightarrow>
         reads (snd (load_mock_data st' (snd (load_mock_data st w)))) =
           reads (snd (load_mock_data st w)) + 1) \<and>
      fst (load_mock_data (Content data) (snd (load_mock_data st w))) = Inr data)"
  by (cases st; cases st') (auto simp: load_mock_data_def)

theorem load_failure_leaves_cache_empty_witness:
  "fst (load_mock_data Absent
      \<lparr>rows = [], pending = [], calls = [], cache = PNone, probes = 0, reads = 0\<rparr>) =
     Inl FileNotFoundError \<and>
   cache (snd (load_mock_data Absent
      \<lparr>rows = [], pending = [], calls = [], cache = PNone, probes = 0, reads = 0\<rparr>)) = PNone \<and>
   reads (snd (load_mock_data Malformed (snd (load_mock_data Absent
      \<lparr>rows = [], pending = [], calls = [], cache = PNone, probes = 0, reads = 0\<rparr>)))) = 1"
proof -
  have e: "fst (load_mock_data Absent
      \<lparr>rows = [], pending = [], calls = [], cache = PNone, probes = 0, reads = 0\<rparr>) =
     Inl FileNotFoundError"
    by (simp add: load_mock_data_def)
  have r: "reads (snd (load_mock_data Absent
      \<lparr>rows = [], pending = [], calls = [], cache = PNone, probes = 0, reads = 0\<rparr>)) = 0"
    by (simp add: load_mock_data_def)
  from load_failure_leaves_cache_empty [of
      "\<lparr>rows = [], pending = [], calls = [], cache = PNone, probes = 0, reads = 0\<rparr>"
      Absent FileNotFoundError Malformed PNone] e r
  show ?thesis by simp
qed

section \<open>Properties of the demo analysis service\<close>


lemma has_demo_loop_iff: "has_demo_loop as \<longleftrightarrow> (\<exists>a \<in> set as. is_demo_config (config a))"
  by (induction as) auto

lemma has_demo_loop_records:
  "has_demo_loop (filter (\<lambda>a. user_id a = uid) as) \<longleftrightarrow> demo_records uid as \<noteq> []"
  by (auto simp: has_demo_loop_iff demo_records_def filter_empty_conv)

lemma has_demo_analysis_eq:
  "has_demo_analysis e w uid =
     (if fails e Query then Inl (DBError Query)
      else Inr (demo_records uid (rows w @ pending w) \<noteq> []),
      w\<lparr>calls := calls w @ [Query]\<rparr>)"
  by (simp add: has_demo_analysis_def db_query_def Let_def has_demo_loop_records del: filter_append)

lemma map_of_dict_set_same: "map_of (dict_set d k v) k = Some v"
  by (induction d) auto

lemma map_of_dict_set_other: "k' \<noteq> k \<Longrightarrow> map_of (dict_set d k v) k' = map_of d k'"
  by (induction d) auto

lemma dict_set_not_empty: "dict_set d k v \<noteq> []"
  by (cases d) (auto split: if_splits)

lemma load_mock_data_session:
  "rows (snd (load_mock_data st w)) = rows w \<and>
   pending (snd (load_mock_data st w)) = pending w \<and>
   calls (snd (load_mock_data st w)) = calls w"
  by (cases st) (simp_all add: load_mock_data_def)

lemma load_mock_data_calls:
  "fst (load_mock_data st (w\<lparr>calls := cs\<rparr>)) = fst (load_mock_data st w)"
  by (cases st) (simp_all add: load_mock_data_def)


lemma build_demo_analysis_Inr:
  assumes "build_demo_analysis e u md = Inr a"
  shows "user_id a = u_id u \<and> is_demo_config (config a) \<and> status a = ''completed'' \<and>
         rootly_integration_id a = None"
proof -
  from assms obtain m where m: "md = PDict m"
    by (cases md) (simp_all add: build_demo_analysis_def)
  from assms m obtain oa0 where oa0: "map_of m ''analysis'' = Some oa0"
    by (cases "map_of m ''analysis''") (simp_all add: build_demo_analysis_def)
  from assms m oa0 obtain oa where oa: "oa0 = PDict oa"
    by (cases oa0) (simp_all add: build_demo_analysis_def)
  from assms m oa0 oa obtain c where c: "dict_get_default oa ''config'' (PDict []) = PDict c"
    by (cases "dict_get_default oa ''config'' (PDict [])") (simp_all add: build_demo_analysis_def)
  have a: "a = \<lparr>user_id = u_id u,
                organization_id = u_organization_id u,
                rootly_integration_id = None,
                integration_name = ''Demo Analysis'',
                platform = dict_get_default oa ''platform'' (PStr ''pagerduty''),
                time_range = dict_get_default oa ''time_range'' (PInt 30),
                status = ''completed'',
                config = PDict
                  (dict_set
                    (dict_set
                      (dict_set c ''is_demo'' (PBool True))
                      ''demo_created_at'' (PStr (now_iso e)))
                    ''demo_note''
                    (PStr ''This is a sample analysis to help you explore the platform'')),
                results = dict_get oa ''results'',
                error_message = None,
                completed_at = now e\<rparr>"
    using assms m oa0 oa c by (simp add: build_demo_analysis_def)
  have "map_of (dict_set
                    (dict_set
                      (dict_set c ''is_demo'' (PBool True))
                      ''demo_created_at'' (PStr (now_iso e)))
                    ''demo_note''
                    (PStr ''This is a sample analysis to help you explore the platform''))
          ''is_demo'' = Some (PBool True)"
    by (simp add: map_of_dict_set_same map_of_dict_set_other)
  then have "is_demo_config (config a)"
    unfolding a by (simp add: is_demo_config_def dict_get_def dict_get_default_def dict_set_not_empty)
  then show ?thesis unfolding a by simp
qed


lemmas db_defs = db_add_def db_commit_def db_refresh_def db_rollback_def

lemma after_add:
  "(case db_add e w2 a of
      (Inl err, w3) \<Rightarrow> (Inl err, w3)
    | (Inr x, w3) \<Rightarrow>
        (case db_commit e w3 of
           (Inl err, w4) \<Rightarrow> (Inl err, w4)
         | (Inr x, w4) \<Rightarrow>
             (case db_refresh e w4 of
                (Inl err, w5) \<Rightarrow> (Inl err, w5)
              | (Inr x, w5) \<Rightarrow> (Inr True, w5)))) =
   (if fails e Add then (Inl (DBError Add), w2\<lparr>calls := calls w2 @ [Add]\<rparr>)
    else if fails e Commit then
      (Inl (DBError Commit),
       w2\<lparr>calls := calls w2 @ [Add, Commit], pending := pending w2 @ [a]\<rparr>)
    else
      (if fails e Refresh then Inl (DBError Refresh) else Inr True,
       w2\<lparr>calls := calls w2 @ [Add, Commit, Refresh],
          rows := rows w2 @ pending w2 @ [a], pending := []\<rparr>))"
  by (simp add: db_defs Let_def)

lemma provision_body_eq:
  "provision_body e w u =
     (if fails e Query then (Inl (DBError Query), w\<lparr>calls := calls w @ [Query]\<rparr>)
      else if demo_records (u_id u) (rows w @ pending w) \<noteq> [] then
        (Inr False, w\<lparr>calls := calls w @ [Query]\<rparr>)
      else
        (case load_mock_data (storage e) (w\<lparr>calls := calls w @ [Query]\<rparr>) of
           (Inl err, w2) \<Rightarrow> (Inl err, w2)
         | (Inr md, w2) \<Rightarrow>
             (case build_demo_analysis e u md of
                Inl err \<Rightarrow> (Inl err, w2)
              | Inr a \<Rightarrow>
                  (if fails e Add then (Inl (DBError Add), w2\<lparr>calls := calls w2 @ [Add]\<rparr>)
                   else if fails e Commit then
                     (Inl (DBError Commit),
                      w2\<lparr>calls := calls w2 @ [Add, Commit], pending := pending w2 @ [a]\<rparr>)
                   else
                     (if fails e Refresh then Inl (DBError Refresh) else Inr True,
                      w2\<lparr>calls := calls w2 @ [Add, Commit, Refresh],
                         rows := rows w2 @ pending w2 @ [a], pending := []\<rparr>)))))"
  unfolding provision_body_def has_demo_analysis_eq after_add
  by (simp split: prod.splits sum.splits)

lemma load_mock_data_session_eq:
  assumes "load_mock_data st w = (r, w2)"
  shows "rows w2 = rows w" and "pending w2 = pending w" and "calls w2 = calls w"
  using load_mock_data_session [of st w] assms by simp_all

lemma provision_body_cases:
  obtains
    (query_fails) "fails e Query"
      "provision_body e w u = (Inl (DBError Query), w\<lparr>calls := calls w @ [Query]\<rparr>)"
  | (has_demo) "\<not> fails e Query" "demo_records (u_id u) (rows w @ pending w) \<noteq> []"
      "provision_body e w u = (Inr False, w\<lparr>calls := calls w @ [Query]\<rparr>)"
  | (load_fails) err w2 where "\<not> fails e Query" "demo_records (u_id u) (rows w @ pending w) = []"
      "load_mock_data (storage e) (w\<lparr>calls := calls w @ [Query]\<rparr>) = (Inl err, w2)"
      "provision_body e w u = (Inl err, w2)"
  | (build_fails) err md w2 where "\<not> fails e Query"
      "demo_records (u_id u) (rows w @ pending w) = []"
      "load_mock_data (storage e) (w\<lparr>calls := calls w @ [Query]\<rparr>) = (Inr md, w2)"
      "build_demo_analysis e u md = Inl err"
      "provision_body e w u = (Inl err, w2)"
  | (add_fails) md a w2 where "\<not> fails e Query"
      "demo_records (u_id u) (rows w @ pending w) = []"
      "load_mock_data (storage e) (w\<lparr>calls := calls w @ [Query]\<rparr>) = (Inr md, w2)"
      "build_demo_analysis e u md = Inr a" "fails e Add"
      "provision_body e w u = (Inl (DBError Add), w2\<lparr>calls := calls w2 @ [Add]\<rparr>)"
  | (commit_fails) md a w2 where "\<not> fails e Query"
      "demo_records (u_id u) (rows w @ pending w) = []"
      "load_mock_data (storage e) (w\<lparr>calls := calls w @ [Query]\<rparr>) = (Inr md, w2)"
      "build_demo_analysis e u md = Inr a" "\<not> fails e Add" "fails e Commit"
      "provision_body e w u =
         (Inl (DBError Commit),
          w2\<lparr>calls := calls w2 @ [Add, Commit], pending := pending w2 @ [a]\<rparr>)"
  | (refresh_fails) md a w2 where "\<not> fails e Query"
      "demo_records (u_id u) (rows w @ pending w) = []"
      "load_mock_data (storage e) (w\<lparr>calls := calls w @ [Query]\<rparr>) = (Inr md, w2)"
      "build_demo_analysis e u md = Inr a" "\<not> fails e Add" "\<not> fails e Commit"
      "fails e Refresh"
      "provision_body e w u =
         (Inl (DBError Refresh),
          w2\<lparr>calls := calls w2 @ [Add, Commit, Refresh],
             rows := rows w2 @ pending w2 @ [a], pending := []\<rparr>)"
  | (success) md a w2 where "\<not> fails e Query"
      "demo_records (u_id u) (rows w @ pending w) = []"
      "load_mock_data (storage e) (w\<lparr>calls := calls w @ [Query]\<rparr>) = (Inr md, w2)"
      "build_demo_analysis e u md = Inr a" "\<not> fails e Add" "\<not> fails e Commit"
      "\<not> fails e Refresh"
      "provision_body e w u =
         (Inr True,
          w2\<lparr>calls := calls w2 @ [Add, Commit, Refresh],
             rows := rows w2 @ pending w2 @ [a], pending := []\<rparr>)"
proof (cases "fails e Query")
  case True
  then show ?thesis using query_fails by (simp add: provision_body_eq)
next
  case q: False
  show ?thesis
  proof (cases "demo_records (u_id u) (rows w @ pending w) = []")
    case False
    with q show ?thesis using has_demo by (simp add: provision_body_eq)
  next
    case d: True
    obtain r w2 where l: "load_mock_data (storage e) (w\<lparr>calls := calls w @ [Query]\<rparr>) = (r, w2)"
      by (cases "load_mock_data (storage e) (w\<lparr>calls := calls w @ [Query]\<rparr>)") blast
    show ?thesis
    proof (cases r)
      case (Inl err)
      with q d l show ?thesis using load_fails by (simp add: provision_body_eq)
    next
      case (Inr md)
      show ?thesis
      proof (cases "build_demo_analysis e u md")
        case (Inl err)
        with q d l Inr show ?thesis using build_fails by (simp add: provision_body_eq)
      next
        case b: (Inr a)
        show ?thesis
        proof (cases "fails e Add")
          case True
          with q d l Inr b show ?thesis using add_fails by (simp add: provision_body_eq)
        next
          case ad: False
          show ?thesis
          proof (cases "fails e Commit")
            case True
            with q d l Inr b ad show ?thesis using commit_fails by (simp add: provision_body_eq)
          next
            case c: False
            show ?thesis
            proof (cases "fails e Refresh")
              case True
              with q d l Inr b ad c show ?thesis
                using refresh_fails by (simp add: provision_body_eq)
            next
              case False
              with q d l Inr b ad c show ?thesis
                using success by (simp add: provision_body_eq)
            qed
          qed
        qed
      qed
    qed
  qed
qed

lemma create_eq:
  "create_demo_analysis_for_new_user e w (Some u) =
     (case fst (provision_body e w u) of
        Inr b \<Rightarrow> (Inr b, snd (provision_body e w u))
      | Inl err \<Rightarrow> (Inr False, snd (db_rollback e (snd (provision_body e w u)))))"
  by (simp add: create_demo_analysis_for_new_user_def split: prod.splits sum.splits)

lemma create_None: "create_demo_analysis_for_new_user e w None = (Inl AttributeError, w)"
  by (simp add: create_demo_analysis_for_new_user_def)

lemma db_rollback_snd:
  "snd (db_rollback e w) =
     (if fails e Rollback then w\<lparr>calls := calls w @ [Rollback]\<rparr>
      else w\<lparr>calls := calls w @ [Rollback], pending := []\<rparr>)"
  by (simp add: db_rollback_def Let_def)

lemma build_demo_analysis_Inl:
  "build_demo_analysis e u md = Inl err \<Longrightarrow> err \<noteq> DBError op"
  by (auto simp: build_demo_analysis_def split: pyval.splits option.splits)

lemma load_mock_data_Inl:
  "load_mock_data st w = (Inl err, w2) \<Longrightarrow> err \<noteq> DBError op"
  by (cases st) (auto simp: load_mock_data_def split: if_splits)

lemma create_raise:
  assumes "fst (provision_body e w u) = Inl err"
  shows "fst (create_demo_analysis_for_new_user e w (Some u)) = Inr False \<and>
         calls (snd (create_demo_analysis_for_new_user e w (Some u))) =
           calls (snd (provision_body e w u)) @ [Rollback] \<and>
         (err \<noteq> DBError Refresh \<longrightarrow>
            rows (snd (create_demo_analysis_for_new_user e w (Some u))) = rows w) \<and>
         (\<not> fails e Rollback \<longrightarrow> pending (snd (create_demo_analysis_for_new_user e w (Some u))) = [])"
proof (cases rule: provision_body_cases [of e w u])
  case query_fails
  then show ?thesis by (simp add: create_eq db_rollback_snd)
next
  case has_demo
  with assms show ?thesis by simp
next
  case (load_fails err' w2)
  then show ?thesis
    using load_mock_data_session_eq [OF load_fails(3)]
    by (simp add: create_eq db_rollback_snd)
next
  case (build_fails err' md w2)
  then show ?thesis
    using load_mock_data_session_eq [OF build_fails(3)]
    by (simp add: create_eq db_rollback_snd)
next
  case (add_fails md a w2)
  then show ?thesis
    using load_mock_data_session_eq [OF add_fails(3)]
    by (simp add: create_eq db_rollback_snd)
next
  case (commit_fails md a w2)
  then show ?thesis
    using load_mock_data_session_eq [OF commit_fails(3)]
    by (simp add: create_eq db_rollback_snd)
next
  case (refresh_fails md a w2)
  with assms show ?thesis
    by (simp add: create_eq db_rollback_snd)
next
  case (success md a w2)
  with assms show ?thesis by simp
qed

lemma create_True:
  assumes "fst (create_demo_analysis_for_new_user e w (Some u)) = Inr True"
  shows "fst (provision_body e w u) = Inr True \<and>
         demo_records (u_id u) (rows w @ pending w) = [] \<and>
         pending (snd (create_demo_analysis_for_new_user e w (Some u))) = [] \<and>
         (\<exists>a. rows (snd (create_demo_analysis_for_new_user e w (Some u))) = rows w @ pending w @ [a] \<and>
              user_id a = u_id u \<and> is_demo_config (config a))"
proof (cases rule: provision_body_cases [of e w u])
  case (success md a w2)
  then show ?thesis
    using load_mock_data_session_eq [OF success(3)] build_demo_analysis_Inr [OF success(4)]
    by (simp add: create_eq)
qed (use assms in \<open>simp_all add: create_eq\<close>)

lemma create_False_rows:
  assumes "fst (create_demo_analysis_for_new_user e w (Some u)) = Inr False"
    and "fst (provision_body e w u) \<noteq> Inl (DBError Refresh)"
  shows "rows (snd (create_demo_analysis_for_new_user e w (Some u))) = rows w"
proof (cases rule: provision_body_cases [of e w u])
  case query_fails
  then show ?thesis by (simp add: create_eq db_rollback_snd)
next
  case has_demo
  then show ?thesis by (simp add: create_eq)
next
  case (load_fails err' w2)
  then show ?thesis
    using load_mock_data_session_eq [OF load_fails(3)]
    by (simp add: create_eq db_rollback_snd)
next
  case (build_fails err' md w2)
  then show ?thesis
    using load_mock_data_session_eq [OF build_fails(3)]
    by (simp add: create_eq db_rollback_snd)
next
  case (add_fails md a w2)
  then show ?thesis
    using load_mock_data_session_eq [OF add_fails(3)]
    by (simp add: create_eq db_rollback_snd)
next
  case (commit_fails md a w2)
  then show ?thesis
    using load_mock_data_session_eq [OF commit_fails(3)]
    by (simp add: create_eq db_rollback_snd)
next
  case (refresh_fails md a w2)
  with assms show ?thesis by simp
next
  case (success md a w2)
  with assms show ?thesis by (simp add: create_eq)
qed



lemmas fixture_defs = template_example_def env_example_def world_example_def user_example_def
  record_example_def

text \<open>
  C2, as stated, fails on \<^verbatim>\<open>user = None\<close>: the read of \<^verbatim>\<open>user.id\<close> at line 105 raises
  inside the \<^verbatim>\<open>try\<close>, and the handler's own read of \<^verbatim>\<open>user.id\<close> at line 149 raises again,
  outside every \<^verbatim>\<open>try\<close>: the call raises \<^verbatim>\<open>AttributeError\<close> to its caller and no session
  method, \<^verbatim>\<open>rollback\<close> included, is called.
\<close>

theorem provision_raises_outward_counterexample:
  "fst (create_demo_analysis_for_new_user (env_example (\<lambda>op. False)) (world_example []) None) =
     Inl AttributeError \<and>
   calls (snd (create_demo_analysis_for_new_user (env_example (\<lambda>op. False)) (world_example [])
     None)) = []"
  by (simp add: create_None fixture_defs)

text \<open>
  C2, amended. Called with a \<^verbatim>\<open>User\<close> row (the docstring asks for a valid \<^verbatim>\<open>user.id\<close>),
  the provisioner returns a boolean and raises nothing outward. Whenever the body of
  the \<^verbatim>\<open>try\<close> raises, the call returns \<^verbatim>\<open>False\<close>, \<^verbatim>\<open>rollback\<close> is the last session method
  called (whether or not it raises itself), the committed records are unchanged unless
  the exception came from \<^verbatim>\<open>refresh\<close>, and the pending records are dropped when the
  rollback succeeds. The call returns \<^verbatim>\<open>True\<close> exactly when the body ran to its end, and
  then exactly one record, a demo record of the user, was added. A raise of the
  idempotency check, the template load, the record build, the insert or the commit is
  a raise of the body that does not come from \<^verbatim>\<open>refresh\<close>.
\<close>

theorem provision_never_raises:
  "(\<exists>b. fst (create_demo_analysis_for_new_user e w (Some u)) = Inr b) \<and>
   (fst (provision_body e w u) = Inl err \<longrightarrow>
      fst (create_demo_analysis_for_new_user e w (Some u)) = Inr False \<and>
      calls (snd (create_demo_analysis_for_new_user e w (Some u))) =
        calls (snd (provision_body e w u)) @ [Rollback] \<and>
      (err \<noteq> DBError Refresh \<longrightarrow>
         rows (snd (create_demo_analysis_for_new_user e w (Some u))) = rows w) \<and>
      (\<not> fails e Rollback \<longrightarrow> pending (snd (create_demo_analysis_for_new_user e w (Some u))) = [])) \<and>
   (fst (create_demo_analysis_for_new_user e w (Some u)) = Inr True \<longleftrightarrow> fst (provision_body e w u) = Inr True) \<and>
   (fst (create_demo_analysis_for_new_user e w (Some u)) = Inr True \<longrightarrow>
      (\<exists>a. rows (snd (create_demo_analysis_for_new_user e w (Some u))) = rows w @ pending w @ [a] \<and>
           user_id a = u_id u \<and> is_demo_config (config a))) \<and>
   (fails e Query \<or>
    demo_records (u_id u) (rows w @ pending w) = [] \<and>
      ((\<exists>x. fst (load_mock_data (storage e) w) = Inl x) \<or>
       (\<exists>md. fst (load_mock_data (storage e) w) = Inr md \<and>
          ((\<exists>x. build_demo_analysis e u md = Inl x) \<or> fails e Add \<or> fails e Commit)))
    \<longrightarrow> (\<exists>x. fst (provision_body e w u) = Inl x \<and> x \<noteq> DBError Refresh))"
proof -
  have a: "fst (provision_body e w u) = Inl err \<longrightarrow>
      fst (create_demo_analysis_for_new_user e w (Some u)) = Inr False \<and>
      calls (snd (create_demo_analysis_for_new_user e w (Some u))) =
        calls (snd (provision_body e w u)) @ [Rollback] \<and>
      (err \<noteq> DBError Refresh \<longrightarrow>
         rows (snd (create_demo_analysis_for_new_user e w (Some u))) = rows w) \<and>
      (\<not> fails e Rollback \<longrightarrow> pending (snd (create_demo_analysis_for_new_user e w (Some u))) = [])"
    using create_raise by blast
  have b: "fst (create_demo_analysis_for_new_user e w (Some u)) = Inr True \<longleftrightarrow>
      fst (provision_body e w u) = Inr True"
    by (cases "fst (provision_body e w u)") (simp_all add: create_eq)
  have t: "\<exists>b. fst (create_demo_analysis_for_new_user e w (Some u)) = Inr b"
    by (cases "fst (provision_body e w u)") (auto simp: create_eq)
  have c: "fst (create_demo_analysis_for_new_user e w (Some u)) = Inr True \<longrightarrow>
      (\<exists>a. rows (snd (create_demo_analysis_for_new_user e w (Some u))) = rows w @ pending w @ [a] \<and>
           user_id a = u_id u \<and> is_demo_config (config a))"
    using create_True [of e w u] by blast
  have d: "fails e Query \<or>
    demo_records (u_id u) (rows w @ pending w) = [] \<and>
      ((\<exists>x. fst (load_mock_data (storage e) w) = Inl x) \<or>
       (\<exists>md. fst (load_mock_data (storage e) w) = Inr md \<and>
          ((\<exists>x. build_demo_analysis e u md = Inl x) \<or> fails e Add \<or> fails e Commit)))
    \<longrightarrow> (\<exists>x. fst (provision_body e w u) = Inl x \<and> x \<noteq> DBError Refresh)"
  proof (cases rule: provision_body_cases [of e w u])
    case query_fails
    then show ?thesis by simp
  next
    case has_demo
    then show ?thesis by simp
  next
    case (load_fails err' w2)
    then show ?thesis using load_mock_data_Inl [OF load_fails(3)] by simp
  next
    case (build_fails err' md w2)
    then show ?thesis using build_demo_analysis_Inl [OF build_fails(4)] by simp
  next
    case (add_fails md a w2)
    then show ?thesis by simp
  next
    case (commit_fails md a w2)
    then show ?thesis by simp
  next
    case (refresh_fails md a w2)
    have "fst (load_mock_data (storage e) w) = Inr md"
      using refresh_fails(3) load_mock_data_calls [of "storage e" "calls w @ [Query]" w]
      by simp
    with refresh_fails show ?thesis by simp
  next
    case (success md a w2)
    have "fst (load_mock_data (storage e) w) = Inr md"
      using success(3) load_mock_data_calls [of "storage e" "calls w @ [Query]" w]
      by simp
    with success show ?thesis by simp
  qed
  from t a b c d show ?thesis by blast
qed








text \<open>
  C5. With a template (cached, or loaded by this call) whose analysis has the config
  \<^verbatim>\<open>{"foo": 1}\<close>, the platform \<^verbatim>\<open>"pagerduty"\<close> and the time range 30, no failing session
  method and no demo record of the user yet, the provisioner returns \<^verbatim>\<open>True\<close> and the
  record it persists has \<^verbatim>\<open>is_demo\<close> bound to \<^verbatim>\<open>True\<close> and \<^verbatim>\<open>foo\<close> to 1 in its config, that
  platform and time range, the status \<^verbatim>\<open>"completed"\<close> and no integration.
\<close>

theorem demo_record_scenario:
  assumes "cache w = PDict m \<or> cache w = PNone \<and> storage e = Content (PDict m)"
    and "map_of m ''analysis'' = Some (PDict oa)"
    and "map_of oa ''config'' = Some (PDict [(''foo'', PInt 1)])"
    and "map_of oa ''platform'' = Some (PStr ''pagerduty'')"
    and "map_of oa ''time_range'' = Some (PInt 30)"
    and "\<not> fails e Query" and "\<not> fails e Add" and "\<not> fails e Commit" and "\<not> fails e Refresh"
    and "demo_records (u_id u) (rows w @ pending w) = []"
  shows "\<exists>a. fst (create_demo_analysis_for_new_user e w (Some u)) = Inr True \<and>
           rows (snd (create_demo_analysis_for_new_user e w (Some u))) = rows w @ pending w @ [a] \<and>
           config a = PDict [(''foo'', PInt 1), (''is_demo'', PBool True),
             (''demo_created_at'', PStr (now_iso e)),
             (''demo_note'',
              PStr ''This is a sample analysis to help you explore the platform'')] \<and>
           dict_get (items (config a)) ''is_demo'' = PBool True \<and>
           dict_get (items (config a)) ''foo'' = PInt 1 \<and>
           platform a = PStr ''pagerduty'' \<and> time_range a = PInt 30 \<and>
           status a = ''completed'' \<and> rootly_integration_id a = None \<and>
           user_id a = u_id u"
proof -
  have b: "build_demo_analysis e u (PDict m) =
     Inr \<lparr>user_id = u_id u,
          organization_id = u_organization_id u,
          rootly_integration_id = None,
          integration_name = ''Demo Analysis'',
          platform = PStr ''pagerduty'',
          time_range = PInt 30,
          status = ''completed'',
          config = PDict [(''foo'', PInt 1), (''is_demo'', PBool True),
             (''demo_created_at'', PStr (now_iso e)),
             (''demo_note'',
              PStr ''This is a sample analysis to help you explore the platform'')],
          results = dict_get oa ''results'',
          error_message = None,
          completed_at = now e\<rparr>"
    using assms(2-5) by (simp add: build_demo_analysis_def dict_get_default_def)
  from assms(1) obtain w2 where
    l: "load_mock_data (storage e) (w\<lparr>calls := calls w @ [Query]\<rparr>) = (Inr (PDict m), w2)"
    by (auto simp: load_mock_data_def)
  note s = load_mock_data_session_eq [OF l]
  have "provision_body e w u =
     (Inr True,
      w2\<lparr>calls := calls w2 @ [Add, Commit, Refresh],
         rows := rows w2 @ pending w2 @
           [\<lparr>user_id = u_id u,
          organization_id = u_organization_id u,
          rootly_integration_id = None,
          integration_name = ''Demo Analysis'',
          platform = PStr ''pagerduty'',
          time_range = PInt 30,
          status = ''completed'',
          config = PDict [(''foo'', PInt 1), (''is_demo'', PBool True),
             (''demo_created_at'', PStr (now_iso e)),
             (''demo_note'',
              PStr ''This is a sample analysis to help you explore the platform'')],
          results = dict_get oa ''results'',
          error_message = None,
          completed_at = now e\<rparr>], pending := []\<rparr>)"
    using assms(6-10) l b by (simp add: provision_body_eq)
  then show ?thesis
    using s by (simp add: create_eq dict_get_def dict_get_default_def)
qed

theorem demo_record_scenario_witness:
  "\<exists>a. fst (create_demo_analysis_for_new_user (env_example (\<lambda>op. False)) (world_example [])
            (Some user_example)) = Inr True \<and>
       rows (snd (create_demo_analysis_for_new_user (env_example (\<lambda>op. False))
            (world_example []) (Some user_example))) = [a] \<and>
       dict_get (items (config a)) ''is_demo'' = PBool True \<and>
       dict_get (items (config a)) ''foo'' = PInt 1 \<and>
       platform a = PStr ''pagerduty'' \<and> time_range a = PInt 30 \<and>
       status a = ''completed'' \<and> rootly_integration_id a = None \<and> user_id a = 7"
  using demo_record_scenario [of "world_example []" "items template_example"
      "env_example (\<lambda>op. False)"
      "[(''config'', PDict [(''foo'', PInt 1)]),
              (''platform'', PStr ''pagerduty''),
              (''time_range'', PInt 30),
              (''results'', PDict [(''team_health'', PInt 82)])]" user_example]
  by (simp add: fixture_defs demo_records_def) blast

lemmas run_defs = create_eq provision_body_eq db_rollback_snd load_mock_data_def
  build_demo_analysis_def dict_get_def dict_get_default_def demo_records_def is_demo_config_def


theorem provision_never_raises_witness:
  "fst (provision_body (env_example (\<lambda>op. op = Commit \<or> op = Rollback)) (world_example [])
      user_example) = Inl (DBError Commit) \<and>
   fst (create_demo_analysis_for_new_user (env_example (\<lambda>op. op = Commit \<or> op = Rollback))
      (world_example []) (Some user_example)) = Inr False \<and>
   rows (snd (create_demo_analysis_for_new_user (env_example (\<lambda>op. op = Commit \<or> op = Rollback))
      (world_example []) (Some user_example))) = [] \<and>
   calls (snd (create_demo_analysis_for_new_user (env_example (\<lambda>op. op = Commit \<or> op = Rollback))
      (world_example []) (Some user_example))) = [Query, Add, Commit, Rollback]"
proof -
  have b: "fst (provision_body (env_example (\<lambda>op. op = Commit \<or> op = Rollback)) (world_example [])
      user_example) = Inl (DBError Commit)"
    by (simp add: run_defs fixture_defs)
  have c: "calls (snd (provision_body (env_example (\<lambda>op. op = Commit \<or> op = Rollback))
      (world_example []) user_example)) = [Query, Add, Commit]"
    by (simp add: run_defs fixture_defs)
  have r: "rows (world_example []) = []" by (simp add: fixture_defs)
  from provision_never_raises [of "env_example (\<lambda>op. op = Commit \<or> op = Rollback)"
      "world_example []" user_example "DBError Commit"] b c r
  show ?thesis by simp
qed


end
